theory Spec2Isabelle
  imports Complex_Main
begin

section \<open>Shared data: constants, units, telemetry snapshot\<close>

text \<open>
  The module const.py is imported by both platforms but is not part of the sources at
  hand. Its values are therefore parameters of every function below: the grill mode
  codes compared with \<open>system_status\<close>, and the two minimum cook temperatures.
\<close>

record grill_consts =
  GRILL_MODE_OFFLINE :: int
  GRILL_MODE_SHUTDOWN :: int
  GRILL_MODE_COOL_DOWN :: int
  GRILL_MODE_CUSTOM_COOK :: int
  GRILL_MODE_MANUAL_COOK :: int
  GRILL_MODE_PREHEATING :: int
  GRILL_MODE_IGNITING :: int
  GRILL_MODE_IDLE :: int
  GRILL_MODE_SLEEPING :: int
  GRILL_MIN_TEMP_C :: int
  GRILL_MIN_TEMP_F :: int

text \<open>
  The mode codes name different modes: the enumeration of const.py gives each its own
  code. Only this much is assumed of the parameters, and only where a theorem says so.
\<close>

definition modes_distinct :: "grill_consts \<Rightarrow> bool" where
  "modes_distinct c = distinct
     [GRILL_MODE_OFFLINE c, GRILL_MODE_SHUTDOWN c, GRILL_MODE_COOL_DOWN c,
      GRILL_MODE_CUSTOM_COOK c, GRILL_MODE_MANUAL_COOK c, GRILL_MODE_PREHEATING c,
      GRILL_MODE_IGNITING c, GRILL_MODE_IDLE c, GRILL_MODE_SLEEPING c]"

text \<open>\<open>self.grill_units\<close> is only ever compared with \<open>UnitOfTemperature.CELSIUS\<close>.\<close>

datatype units = CELSIUS | FAHRENHEIT

text \<open>
  \<open>self.grill_state\<close>: the dictionary the client hands over on every telemetry push,
  with the keys the two platforms read. Temperatures are integers here.
\<close>

record grill_state =
  gs_connected :: bool
  gs_system_status :: int
  gs_grill :: int
  gs_probe :: int
  gs_set :: int
  gs_smoke :: int
  gs_keepwarm :: int
  gs_cook_timer_complete :: bool
  gs_probe_alarm_fired :: bool

text \<open>The exceptions the modelled methods can raise.\<close>

datatype error = IndexError | TypeError | NotImplementedError

section \<open>sensor.py: TraegerBaseSensor.available\<close>

definition base_available :: "grill_state option \<Rightarrow> bool" where
  "base_available gs = (case gs of None \<Rightarrow> False | Some s \<Rightarrow> gs_connected s)"

section \<open>sensor.py: HeatingState\<close>

record HeatingState =
  hs_grill_state :: "grill_state option"
  hs_grill_units :: units
  hs_previous_target_temp :: "int option"
  hs_previous_state :: string

definition HeatingState_init :: "HeatingState" where
  "HeatingState_init =
     \<lparr>hs_grill_state = None, hs_grill_units = FAHRENHEIT,
      hs_previous_target_temp = None, hs_previous_state = ''idle''\<rparr>"

definition preheat_modes :: "grill_consts \<Rightarrow> int list" where
  "preheat_modes c = [GRILL_MODE_PREHEATING c, GRILL_MODE_IGNITING c]"

definition cook_modes :: "grill_consts \<Rightarrow> int list" where
  "cook_modes c = [GRILL_MODE_CUSTOM_COOK c, GRILL_MODE_MANUAL_COOK c]"

definition temp_swing :: "units \<Rightarrow> int" where
  "temp_swing u = (if u = CELSIUS then 11 else 20)"

definition min_cook_temp :: "grill_consts \<Rightarrow> units \<Rightarrow> int" where
  "min_cook_temp c u = (if u = CELSIUS then GRILL_MIN_TEMP_C c else GRILL_MIN_TEMP_F c)"

text \<open>
  The \<open>if\<close>/\<open>elif\<close> chain on \<open>self.previous_state\<close> inside the cook-mode branch.
  \<open>None\<close> is the final \<open>else\<close>, which assigns no label and sets \<open>target_changed\<close>.
\<close>

definition hysteresis :: "string \<Rightarrow> int \<Rightarrow> int \<Rightarrow> int \<Rightarrow> int \<Rightarrow> string option" where
  "hysteresis prev current_temp target_temp low_temp high_temp =
     (if prev = ''heating'' \<or> prev = ''preheating'' then
        Some (if current_temp \<ge> target_temp then ''at_temp'' else ''heating'')
      else if prev = ''cooling'' then
        Some (if current_temp \<le> target_temp then ''at_temp'' else ''cooling'')
      else if prev = ''at_temp'' then
        Some (if current_temp > high_temp then ''over_temp''
              else if current_temp < low_temp then ''under_temp''
              else ''at_temp'')
      else if prev = ''under_temp'' then
        Some (if current_temp > low_temp then ''at_temp'' else ''under_temp'')
      else if prev = ''over_temp'' then
        Some (if current_temp < high_temp then ''at_temp'' else ''over_temp'')
      else None)"

definition cook_label :: "string \<Rightarrow> bool \<Rightarrow> int \<Rightarrow> int \<Rightarrow> int \<Rightarrow> int \<Rightarrow> string" where
  "cook_label prev target_changed current_temp target_temp low_temp high_temp =
     (let forced = (if current_temp \<le> target_temp then ''heating'' else ''cooling'')
      in (case hysteresis prev current_temp target_temp low_temp high_temp of
            None \<Rightarrow> forced
          | Some l \<Rightarrow> (if target_changed then forced else l)))"

text \<open>
  \<open>HeatingState.state\<close>: the label and the entity after the call. The early return on
  a missing snapshot leaves both retained fields as they are.
\<close>

definition heating_state :: "grill_consts \<Rightarrow> HeatingState \<Rightarrow> string \<times> HeatingState" where
  "heating_state c self =
     (case hs_grill_state self of
        None \<Rightarrow> (''idle'', self)
      | Some gs \<Rightarrow>
          (let target_temp = gs_set gs;
              grill_mode = gs_system_status gs;
              current_temp = gs_grill gs;
              target_changed = (Some target_temp \<noteq> hs_previous_target_temp self);
              low_temp = target_temp - temp_swing (hs_grill_units self);
              high_temp = target_temp + temp_swing (hs_grill_units self);
              state =
                (if grill_mode \<in> set (preheat_modes c) then
                   (if current_temp < min_cook_temp c (hs_grill_units self)
                    then ''preheating'' else ''heating'')
                 else if grill_mode \<in> set (cook_modes c) then
                   cook_label (hs_previous_state self) target_changed
                     current_temp target_temp low_temp high_temp
                 else if grill_mode = GRILL_MODE_COOL_DOWN c then ''cool_down''
                 else ''idle'')
          in (state, self\<lparr>hs_previous_target_temp := Some target_temp,
                          hs_previous_state := state\<rparr>)))"

section \<open>sensor.py: ProbeState\<close>

text \<open>
  \<open>self.grill_accessory\<close>: the accessory dictionary of the client, with the connection
  flag \<open>con\<close> and, under the key of its type, \<open>set_temp\<close>, \<open>get_temp\<close> and the
  optional key \<open>alarm_fired\<close>.
\<close>

record accessory =
  acc_con :: bool
  acc_set_temp :: int
  acc_get_temp :: int
  acc_alarm_fired :: "bool option"

record ProbeState =
  ps_grill_state :: "grill_state option"
  ps_grill_units :: units
  ps_grill_accessory :: "accessory option"
  ps_previous_target_temp :: "int option"
  probe_alarm :: bool

definition active_modes :: "grill_consts \<Rightarrow> int list" where
  "active_modes c = [GRILL_MODE_PREHEATING c, GRILL_MODE_IGNITING c,
                     GRILL_MODE_CUSTOM_COOK c, GRILL_MODE_MANUAL_COOK c]"

text \<open>\<open>ProbeState.available\<close>: the answer and the entity after the call.\<close>

definition probe_available :: "ProbeState \<Rightarrow> bool \<times> ProbeState" where
  "probe_available self =
     (case ps_grill_state self of
        None \<Rightarrow> (False, self\<lparr>probe_alarm := False\<rparr>)
      | Some gs \<Rightarrow>
          (if \<not> gs_connected gs then (False, self\<lparr>probe_alarm := False\<rparr>)
           else (case ps_grill_accessory self of
                   None \<Rightarrow> (False, self\<lparr>probe_alarm := False\<rparr>)
                 | Some acc \<Rightarrow>
                     (let connected = acc_con acc
                      in if \<not> connected then (connected, self\<lparr>probe_alarm := False\<rparr>)
                         else (connected, self)))))"

definition fell_out_temp :: "units \<Rightarrow> int" where
  "fell_out_temp u = (if u = CELSIUS then 102 else 215)"

definition close_temp :: "units \<Rightarrow> int" where
  "close_temp u = (if u = CELSIUS then 3 else 5)"

text \<open>The latch after the first \<open>if\<close>/\<open>elif\<close> chain of \<open>ProbeState.state\<close>.\<close>

definition latch_update ::
  "grill_consts \<Rightarrow> bool \<Rightarrow> bool option \<Rightarrow> bool \<Rightarrow> int \<Rightarrow> int \<Rightarrow> bool" where
  "latch_update c latch alarm_fired target_changed target_temp grill_mode =
     (case alarm_fired of
        None \<Rightarrow> False
      | Some fired \<Rightarrow>
          (if fired then True
           else if (target_changed \<and> target_temp \<noteq> 0) \<or> grill_mode \<notin> set (active_modes c)
           then False
           else latch))"

text \<open>
  \<open>ProbeState.state\<close>. Reading \<open>system_status\<close> from a missing snapshot raises before
  anything is written.
\<close>

definition probe_state :: "grill_consts \<Rightarrow> ProbeState \<Rightarrow> (error + string) \<times> ProbeState" where
  "probe_state c self =
     (case ps_grill_accessory self of
        None \<Rightarrow> (Inr ''idle'', self)
      | Some acc \<Rightarrow>
          (case ps_grill_state self of
             None \<Rightarrow> (Inl TypeError, self)
           | Some gs \<Rightarrow>
               (let target_temp = acc_set_temp acc;
                   probe_temp = acc_get_temp acc;
                   target_changed = (Some target_temp \<noteq> ps_previous_target_temp self);
                   grill_mode = gs_system_status gs;
                   latch = latch_update c (probe_alarm self) (acc_alarm_fired acc)
                             target_changed target_temp grill_mode;
                   (state, latch') =
                     (if probe_temp \<ge> fell_out_temp (ps_grill_units self) then (''fell_out'', latch)
                      else if latch then (''at_temp'', latch)
                      else if target_temp \<noteq> 0 \<and> grill_mode \<in> set (active_modes c) then
                        (if probe_temp + close_temp (ps_grill_units self) \<ge> target_temp
                         then ''close'' else ''set'', latch)
                      else (''idle'', False))
               in (Inr state, self\<lparr>probe_alarm := latch',
                                    ps_previous_target_temp := Some target_temp\<rparr>))))"

section \<open>number.py: CookCycNumberEntity\<close>

text \<open>A cook step: a dictionary in which every key is optional.\<close>

record step =
  time_set :: "int option"
  set_temp :: "int option"
  probe_set_temp :: "int option"
  act_temp_adv :: "int option"
  probe_act_temp_adv :: "int option"
  min_delta :: "int option"
  max_grill_delta_temp :: "int option"
  smoke :: "int option"
  keepwarm :: "int option"
  use_timer :: "bool option"
  shutdown :: "int option"

text \<open>
  A call handed to \<open>hass.async_create_task\<close>: domain, service, entity id and the one
  further entry of the service data. Calls are queued in the order they are created.
\<close>

datatype service_data = NoData | Temperature int | Value int | HvacMode string

datatype command = ServiceCall string string string service_data

text \<open>
  The fields of the entity that \<open>native_value\<close> reads and writes. The base entity
  (entity.py, not among the sources) fills \<open>grill_state\<close>, \<open>grill_details\<close>,
  \<open>grill_limits\<close> and \<open>grill_features\<close> from the client; of these only the
  snapshot is tested against \<open>None\<close>, the other three are read by key and are
  present here: the friendly name, the maximum grill temperature and the super-smoke
  flag. Step values are integers, on which \<open>round\<close> is the identity.
\<close>

record CookCycNumberEntity =
  grill_id :: string
  cc_grill_state :: "grill_state option"
  friendlyName :: string
  max_grill_temp :: int
  super_smoke_enabled :: int
  num_value :: int
  old_num_value :: int
  cook_cycle :: "step list"

definition native_min_value :: int where
  "native_min_value = 0"

definition native_max_value :: int where
  "native_max_value = 999"

text \<open>
  Subscripting a list as Python does: positions 0 to len - 1, and -len to -1 for the
  same elements counted from the end; anything else raises. \<open>py_store\<close> is the
  assignment through a subscript that has already been read.
\<close>

definition py_index :: "'a list \<Rightarrow> int \<Rightarrow> error + 'a" where
  "py_index xs i =
     (if 0 \<le> i \<and> i < int (length xs) then Inr (xs ! nat i)
      else if i < 0 \<and> - int (length xs) \<le> i then Inr (xs ! nat (int (length xs) + i))
      else Inl IndexError)"

definition py_store :: "'a list \<Rightarrow> int \<Rightarrow> 'a \<Rightarrow> 'a list" where
  "py_store xs i v =
     (if 0 \<le> i \<and> i < int (length xs) then xs[nat i := v]
      else if i < 0 \<and> - int (length xs) \<le> i then xs[nat (int (length xs) + i) := v]
      else xs)"

text \<open>\<open>re.sub("[^A-Za-z0-9]+", "", s).lower()\<close> on the friendly name.\<close>

definition is_alnum :: "char \<Rightarrow> bool" where
  "is_alnum ch = (let k = of_char ch :: nat
                  in (65 \<le> k \<and> k \<le> 90) \<or> (97 \<le> k \<and> k \<le> 122) \<or> (48 \<le> k \<and> k \<le> 57))"

definition lower_char :: "char \<Rightarrow> char" where
  "lower_char ch = (let k = of_char ch :: nat
                    in if 65 \<le> k \<and> k \<le> 90 then char_of (k + 32) else ch)"

definition probe_entity_id :: "string \<Rightarrow> string" where
  "probe_entity_id fname = ''climate.'' @ map lower_char (filter is_alnum fname) @ ''_probe_p0''"

definition climate_id :: "CookCycNumberEntity \<Rightarrow> string" where
  "climate_id self = ''climate.'' @ grill_id self @ ''_climate''"

text \<open>Lines 116 to 127: does the step's advance condition hold on this snapshot?\<close>

definition advance_fires :: "step \<Rightarrow> grill_state \<Rightarrow> bool" where
  "advance_fires curstep gs =
     (case use_timer curstep of
        Some ut \<Rightarrow> ut \<and> gs_cook_timer_complete gs
      | None \<Rightarrow>
          (if gs_probe_alarm_fired gs then True
           else (case act_temp_adv curstep of
                   Some t \<Rightarrow> gs_grill gs > t
                 | None \<Rightarrow>
                     (case probe_act_temp_adv curstep of
                        Some t \<Rightarrow> gs_probe gs > t
                      | None \<Rightarrow> False))))"

text \<open>
  Lines 130 to 150, the in-step change: the step with its \<open>max_grill_delta_temp\<close>
  clamped to the grill's limit, and the call that raises the target by five degrees.
\<close>

definition in_step_change ::
  "CookCycNumberEntity \<Rightarrow> grill_state \<Rightarrow> step \<Rightarrow> step \<times> command list" where
  "in_step_change self gs curstep =
     (case min_delta curstep of
        None \<Rightarrow> (curstep, [])
      | Some md \<Rightarrow>
          (case max_grill_delta_temp curstep of
             None \<Rightarrow> (curstep, [])
           | Some mg \<Rightarrow>
               (let mg' = (if mg > max_grill_temp self then max_grill_temp self else mg);
                    curstep' = curstep\<lparr>max_grill_delta_temp := Some mg'\<rparr>
                in (curstep',
                    if gs_set gs < mg' \<and> gs_probe gs > gs_set gs - md
                    then [ServiceCall ''climate'' ''set_temperature'' (climate_id self)
                            (Temperature (gs_set gs + 5))]
                    else []))))"

text \<open>
  Lines 114 to 150, "scan for next step advance". The step is read once, before the
  index moves; the clamp is written into that step of the stored list.
\<close>

definition scan_for_advance ::
  "CookCycNumberEntity \<Rightarrow> grill_state \<Rightarrow> error option \<times> CookCycNumberEntity \<times> command list" where
  "scan_for_advance self gs =
     (if num_value self > 0 \<and> num_value self = old_num_value self then
        (case py_index (cook_cycle self) (num_value self - 1) of
           Inl e \<Rightarrow> (Some e, self, [])
         | Inr curstep \<Rightarrow>
             (let i = num_value self - 1;
                  n' = (if advance_fires curstep gs then num_value self + 1 else num_value self);
                  (curstep', cmds) = in_step_change self gs curstep
              in (None, self\<lparr>num_value := n', cook_cycle := py_store (cook_cycle self) i curstep'\<rparr>,
                  cmds)))
      else (None, self, []))"

text \<open>Lines 156 to 246: the calls queued on entering a step, in the order of the source.\<close>

definition timer_cmd :: "CookCycNumberEntity \<Rightarrow> step \<Rightarrow> command list" where
  "timer_cmd self curstep =
     (case time_set curstep of
        None \<Rightarrow> []
      | Some t \<Rightarrow> [ServiceCall ''number'' ''set_value''
                     (''number.'' @ grill_id self @ ''_cook_timer'') (Value t)])"

definition probe_target_cmd :: "CookCycNumberEntity \<Rightarrow> step \<Rightarrow> command list" where
  "probe_target_cmd self curstep =
     (case probe_set_temp curstep of
        None \<Rightarrow> []
      | Some t \<Rightarrow> [ServiceCall ''climate'' ''set_temperature''
                     (probe_entity_id (friendlyName self)) (Temperature t)])"

definition grill_target_cmd :: "CookCycNumberEntity \<Rightarrow> step \<Rightarrow> command list" where
  "grill_target_cmd self curstep =
     (case set_temp curstep of
        None \<Rightarrow> []
      | Some t \<Rightarrow> [ServiceCall ''climate'' ''set_temperature'' (climate_id self) (Temperature t)])"

definition smoke_cmd :: "CookCycNumberEntity \<Rightarrow> grill_state \<Rightarrow> step \<Rightarrow> command list" where
  "smoke_cmd self gs curstep =
     (case smoke curstep of
        None \<Rightarrow> []
      | Some sm \<Rightarrow>
          (if super_smoke_enabled self = 1 \<and> gs_smoke gs \<noteq> sm \<and> gs_set gs \<le> 225 then
             (if sm = 1
              then [ServiceCall ''switch'' ''turn_on'' (''switch.'' @ grill_id self @ ''_smoke'') NoData]
              else [ServiceCall ''switch'' ''turn_off'' (''switch.'' @ grill_id self @ ''_smoke'') NoData])
           else []))"

definition keepwarm_cmd :: "CookCycNumberEntity \<Rightarrow> grill_state \<Rightarrow> step \<Rightarrow> command list" where
  "keepwarm_cmd self gs curstep =
     (case keepwarm curstep of
        None \<Rightarrow> []
      | Some kw \<Rightarrow>
          (if gs_keepwarm gs \<noteq> kw then
             (if kw = 1
              then [ServiceCall ''switch'' ''turn_on'' (''switch.'' @ grill_id self @ ''_keepwarm'') NoData]
              else [ServiceCall ''switch'' ''turn_off'' (''switch.'' @ grill_id self @ ''_keepwarm'') NoData])
           else []))"

definition shutdown_cmd :: "CookCycNumberEntity \<Rightarrow> step \<Rightarrow> command list" where
  "shutdown_cmd self curstep =
     (case shutdown curstep of
        None \<Rightarrow> []
      | Some sd \<Rightarrow>
          (if sd = 1
           then [ServiceCall ''climate'' ''set_hvac_mode'' (climate_id self) (HvacMode ''cool'')]
           else []))"

definition step_entry_cmds :: "CookCycNumberEntity \<Rightarrow> grill_state \<Rightarrow> step \<Rightarrow> command list" where
  "step_entry_cmds self gs curstep =
     timer_cmd self curstep @ probe_target_cmd self curstep @ grill_target_cmd self curstep
     @ smoke_cmd self gs curstep @ keepwarm_cmd self gs curstep @ shutdown_cmd self curstep"

text \<open>
  Lines 153 to 247, "implement next step". The subscript is the first thing the branch
  does, so an index past the list raises before any call is queued.
\<close>

definition implement_next_step ::
  "CookCycNumberEntity \<Rightarrow> grill_state \<Rightarrow> error option \<times> CookCycNumberEntity \<times> command list" where
  "implement_next_step self gs =
     (if num_value self > 0 \<and> num_value self \<noteq> old_num_value self then
        (case py_index (cook_cycle self) (num_value self - 1) of
           Inl e \<Rightarrow> (Some e, self, [])
         | Inr curstep \<Rightarrow>
             (None,
              (if shutdown curstep = Some 1 then self\<lparr>num_value := 0\<rparr> else self),
              step_entry_cmds self gs curstep))
      else (None, self, []))"

definition stop_modes :: "grill_consts \<Rightarrow> int list" where
  "stop_modes c = [GRILL_MODE_COOL_DOWN c, GRILL_MODE_SLEEPING c,
                   GRILL_MODE_SHUTDOWN c, GRILL_MODE_IDLE c]"

text \<open>
  \<open>CookCycNumberEntity.native_value\<close>: what the property returns or raises, the entity
  after the call, and the calls it queued. An exception keeps the writes and the calls
  made before it.
\<close>

definition native_value ::
  "grill_consts \<Rightarrow> CookCycNumberEntity \<Rightarrow> (error + int) \<times> CookCycNumberEntity \<times> command list" where
  "native_value c self =
     (case cc_grill_state self of
        None \<Rightarrow> (Inr 0, self\<lparr>num_value := 0\<rparr>, [])
      | Some gs \<Rightarrow>
          (if num_value self > int (length (cook_cycle self)) then
             (Inr 0, self\<lparr>num_value := 0\<rparr>, [])
           else if num_value self > 0 \<and> gs_system_status gs \<in> set (stop_modes c) then
             (Inr 0, self\<lparr>num_value := 0\<rparr>, [])
           else
             (case scan_for_advance self gs of
                (Some e, s1, cmds1) \<Rightarrow> (Inl e, s1, cmds1)
              | (None, s1, cmds1) \<Rightarrow>
                  (case implement_next_step s1 gs of
                     (Some e, s2, cmds2) \<Rightarrow> (Inl e, s2, cmds1 @ cmds2)
                   | (None, s2, cmds2) \<Rightarrow>
                       (let s3 = s2\<lparr>old_num_value := num_value s2\<rparr>;
                            s4 = (if num_value s3 > int (length (cook_cycle s3))
                                  then s3\<lparr>num_value := 0\<rparr> else s3)
                        in (Inr (num_value s4), s4, cmds1 @ cmds2))))))"

text \<open>
  Python's \<open>round\<close> of a finite float, taken as the rational it denotes: to the nearest
  integer, a tie going to the even one.
\<close>

definition py_round :: "rat \<Rightarrow> int" where
  "py_round x =
     (let f = \<lfloor>x\<rfloor>; d = x - of_int f
      in if d < 1 / 2 then f else if d > 1 / 2 then f + 1 else if even f then f else f + 1)"


definition set_custom_cook :: "step list \<Rightarrow> CookCycNumberEntity \<Rightarrow> CookCycNumberEntity" where
  "set_custom_cook steps self = self\<lparr>cook_cycle := steps\<rparr>"

section \<open>number.py: TraegerNumberEntity\<close>

text \<open>The two client methods the timer entity awaits.\<close>

datatype client_call = set_timer_sec int | reset_timer

definition timer_async_set_native_value ::
  "grill_consts \<Rightarrow> grill_state option \<Rightarrow> rat \<Rightarrow> error + client_call list" where
  "timer_async_set_native_value c grill_st v =
     (case grill_st of
        None \<Rightarrow> Inr []
      | Some gs \<Rightarrow>
          (let state = gs_system_status gs
           in if GRILL_MODE_IGNITING c \<le> state \<and> state \<le> GRILL_MODE_CUSTOM_COOK c then
                (if v \<ge> 1 then Inr [set_timer_sec (py_round v * 60)] else Inr [reset_timer])
              else Inl NotImplementedError))"

section \<open>Views of an evaluation\<close>

text \<open>
  \<open>native_value\<close> queues calls from two blocks: the in-step change inside the advance
  scan, and the step-entry block. The functions below read off one evaluation which block
  queued what, and which step the step-entry block was run for (if it ran at all).
\<close>

definition queued_by_scan :: "grill_consts \<Rightarrow> CookCycNumberEntity \<Rightarrow> command list" where
  "queued_by_scan c self =
     (case cc_grill_state self of
        None \<Rightarrow> []
      | Some gs \<Rightarrow>
          (if num_value self > int (length (cook_cycle self)) then []
           else if num_value self > 0 \<and> gs_system_status gs \<in> set (stop_modes c) then []
           else snd (snd (scan_for_advance self gs))))"

definition queued_by_entry :: "grill_consts \<Rightarrow> CookCycNumberEntity \<Rightarrow> command list" where
  "queued_by_entry c self =
     (case cc_grill_state self of
        None \<Rightarrow> []
      | Some gs \<Rightarrow>
          (if num_value self > int (length (cook_cycle self)) then []
           else if num_value self > 0 \<and> gs_system_status gs \<in> set (stop_modes c) then []
           else (case scan_for_advance self gs of
                   (Some e, s1, cmds1) \<Rightarrow> []
                 | (None, s1, cmds1) \<Rightarrow> snd (snd (implement_next_step s1 gs)))))"

definition entered_step :: "grill_consts \<Rightarrow> CookCycNumberEntity \<Rightarrow> int option" where
  "entered_step c self =
     (case cc_grill_state self of
        None \<Rightarrow> None
      | Some gs \<Rightarrow>
          (if num_value self > int (length (cook_cycle self)) then None
           else if num_value self > 0 \<and> gs_system_status gs \<in> set (stop_modes c) then None
           else (case scan_for_advance self gs of
                   (Some e, s1, cmds1) \<Rightarrow> None
                 | (None, s1, cmds1) \<Rightarrow>
                     (if num_value s1 > 0 \<and> num_value s1 \<noteq> old_num_value s1
                      then Some (num_value s1) else None))))"

text \<open>
  The advance scan of line 114 is reached with its condition true: no guard returned,
  the index is positive and equals the index of the previous evaluation.
\<close>

definition takes_advance_path :: "grill_consts \<Rightarrow> CookCycNumberEntity \<Rightarrow> bool" where
  "takes_advance_path c self =
     (case cc_grill_state self of
        None \<Rightarrow> False
      | Some gs \<Rightarrow>
          \<not> num_value self > int (length (cook_cycle self))
          \<and> \<not> (num_value self > 0 \<and> gs_system_status gs \<in> set (stop_modes c))
          \<and> num_value self > 0 \<and> num_value self = old_num_value self)"

section \<open>Sequences of probe evaluations\<close>

text \<open>
  One telemetry push for the probe sensor: \<open>grill_accessory_update\<close> stores the new
  snapshot and accessory, then the host reads \<open>state\<close>.
\<close>

definition probe_tick ::
  "grill_consts \<Rightarrow> ProbeState \<Rightarrow> grill_state \<times> accessory \<Rightarrow> (error + string) \<times> ProbeState" where
  "probe_tick c self t =
     probe_state c (self\<lparr>ps_grill_state := Some (fst t), ps_grill_accessory := Some (snd t)\<rparr>)"

fun probe_run ::
  "grill_consts \<Rightarrow> ProbeState \<Rightarrow> (grill_state \<times> accessory) list
     \<Rightarrow> (error + string) list \<times> ProbeState" where
  "probe_run c self [] = ([], self)"
| "probe_run c self (t # ts) =
     (let r = probe_tick c self t; rs = probe_run c (snd r) ts
      in (fst r # fst rs, snd rs))"

text \<open>
  Along a sequence of pushes, starting from the given previous target: every accessory
  has the \<open>alarm_fired\<close> key, no target changes to a nonzero value, and the grill mode
  stays in the active modes.
\<close>

fun latch_kept :: "grill_consts \<Rightarrow> int option \<Rightarrow> (grill_state \<times> accessory) list \<Rightarrow> bool" where
  "latch_kept c prev [] = True"
| "latch_kept c prev (t # ts) =
     (acc_alarm_fired (snd t) \<noteq> None
      \<and> \<not> (Some (acc_set_temp (snd t)) \<noteq> prev \<and> acc_set_temp (snd t) \<noteq> 0)
      \<and> gs_system_status (fst t) \<in> set (active_modes c)
      \<and> latch_kept c (Some (acc_set_temp (snd t))) ts)"

section \<open>Sample inputs\<close>

text \<open>
  Concrete values on which the theorems below are evaluated. The mode codes are sample
  values for the parameters, distinct and with igniting below custom cook.
\<close>

definition c0 :: grill_consts where
  "c0 = \<lparr>GRILL_MODE_OFFLINE = 99, GRILL_MODE_SHUTDOWN = 9, GRILL_MODE_COOL_DOWN = 8,
         GRILL_MODE_CUSTOM_COOK = 7, GRILL_MODE_MANUAL_COOK = 6, GRILL_MODE_PREHEATING = 5,
         GRILL_MODE_IGNITING = 4, GRILL_MODE_IDLE = 3, GRILL_MODE_SLEEPING = 2,
         GRILL_MIN_TEMP_C = 75, GRILL_MIN_TEMP_F = 165\<rparr>"

text \<open>A snapshot in custom cook with target 225 and the given grill temperature.\<close>

definition gs0 :: "int \<Rightarrow> grill_state" where
  "gs0 cur = \<lparr>gs_connected = True, gs_system_status = 7, gs_grill = cur, gs_probe = 100,
              gs_set = 225, gs_smoke = 0, gs_keepwarm = 0,
              gs_cook_timer_complete = False, gs_probe_alarm_fired = False\<rparr>"

definition hs0 :: "string \<Rightarrow> int option \<Rightarrow> int \<Rightarrow> HeatingState" where
  "hs0 prev prev_target cur =
     \<lparr>hs_grill_state = Some (gs0 cur), hs_grill_units = FAHRENHEIT,
      hs_previous_target_temp = prev_target, hs_previous_state = prev\<rparr>"

text \<open>A heating sensor that last reported \<open>at_temp\<close> at target 225 and has lost its snapshot.\<close>

definition hs_off :: "HeatingState" where
  "hs_off = \<lparr>hs_grill_state = None, hs_grill_units = FAHRENHEIT,
             hs_previous_target_temp = Some 225, hs_previous_state = ''at_temp''\<rparr>"

text \<open>Probe accessories and a probe sensor in Fahrenheit.\<close>

definition acc0 :: "int \<Rightarrow> int \<Rightarrow> bool option \<Rightarrow> accessory" where
  "acc0 target temp fired =
     \<lparr>acc_con = True, acc_set_temp = target, acc_get_temp = temp, acc_alarm_fired = fired\<rparr>"

definition ps0 :: "ProbeState" where
  "ps0 = \<lparr>ps_grill_state = Some (gs0 225), ps_grill_units = FAHRENHEIT,
          ps_grill_accessory = Some (acc0 165 100 (Some False)),
          ps_previous_target_temp = Some 165, probe_alarm = False\<rparr>"

text \<open>Cook steps and a cook-cycle entity.\<close>

definition step0 :: "step" where
  "step0 = \<lparr>time_set = None, set_temp = None, probe_set_temp = None, act_temp_adv = None,
            probe_act_temp_adv = None, min_delta = None, max_grill_delta_temp = None,
            smoke = None, keepwarm = None, use_timer = None, shutdown = None\<rparr>"

definition timer_step :: "step" where
  "timer_step = step0\<lparr>time_set := Some 600, use_timer := Some True\<rparr>"

definition target_step :: "step" where
  "target_step = step0\<lparr>set_temp := Some 225\<rparr>"

definition gs_done :: "grill_state" where
  "gs_done = (gs0 200)\<lparr>gs_cook_timer_complete := True\<rparr>"

definition cc0 :: "step list \<Rightarrow> int \<Rightarrow> int \<Rightarrow> grill_state option \<Rightarrow> CookCycNumberEntity" where
  "cc0 steps i i_prev gs =
     \<lparr>grill_id = ''grill'', cc_grill_state = gs, friendlyName = ''My Grill'',
      max_grill_temp = 500, super_smoke_enabled = 1,
      num_value = i, old_num_value = i_prev, cook_cycle = steps\<rparr>"

section \<open>Helper facts\<close>

lemma modes_distinct_c0: "modes_distinct c0"
  by (simp add: modes_distinct_def c0_def)

lemma cook_not_preheat:
  "modes_distinct c \<Longrightarrow> m \<in> set (cook_modes c) \<Longrightarrow> m \<notin> set (preheat_modes c)"
  by (auto simp: modes_distinct_def cook_modes_def preheat_modes_def)

lemma heating_state_cook:
  assumes "hs_grill_state self = Some gs" "modes_distinct c"
      and "gs_system_status gs \<in> set (cook_modes c)"
  shows "fst (heating_state c self) =
           cook_label (hs_previous_state self) (Some (gs_set gs) \<noteq> hs_previous_target_temp self)
             (gs_grill gs) (gs_set gs) (gs_set gs - temp_swing (hs_grill_units self))
             (gs_set gs + temp_swing (hs_grill_units self))"
  using assms cook_not_preheat[OF assms(2,3)] by (simp add: heating_state_def Let_def)

lemma probe_tick_latched:
  assumes "probe_alarm self"
      and "acc_alarm_fired (snd t) \<noteq> None"
      and "\<not> (Some (acc_set_temp (snd t)) \<noteq> ps_previous_target_temp self \<and> acc_set_temp (snd t) \<noteq> 0)"
      and "gs_system_status (fst t) \<in> set (active_modes c)"
  shows "fst (probe_tick c self t) =
           Inr (if acc_get_temp (snd t) \<ge> fell_out_temp (ps_grill_units self)
                then ''fell_out'' else ''at_temp'')"
    and "probe_alarm (snd (probe_tick c self t))"
    and "ps_previous_target_temp (snd (probe_tick c self t)) = Some (acc_set_temp (snd t))"
    and "ps_grill_units (snd (probe_tick c self t)) = ps_grill_units self"
  using assms
  by (auto simp: probe_tick_def probe_state_def latch_update_def Let_def split: option.splits)

lemma probe_tick_fired:
  assumes "acc_alarm_fired (snd t) = Some True"
  shows "fst (probe_tick c self t) =
           Inr (if acc_get_temp (snd t) \<ge> fell_out_temp (ps_grill_units self)
                then ''fell_out'' else ''at_temp'')"
    and "probe_alarm (snd (probe_tick c self t))"
    and "ps_previous_target_temp (snd (probe_tick c self t)) = Some (acc_set_temp (snd t))"
    and "ps_grill_units (snd (probe_tick c self t)) = ps_grill_units self"
  using assms
  by (auto simp: probe_tick_def probe_state_def latch_update_def Let_def)

lemma probe_tick_release:
  assumes "acc_alarm_fired (snd t) = None
           \<or> (acc_alarm_fired (snd t) = Some False
               \<and> ((Some (acc_set_temp (snd t)) \<noteq> ps_previous_target_temp self \<and> acc_set_temp (snd t) \<noteq> 0)
                   \<or> gs_system_status (fst t) \<notin> set (active_modes c)))"
  shows "\<not> probe_alarm (snd (probe_tick c self t))"
  using assms
  by (auto simp: probe_tick_def probe_state_def latch_update_def Let_def)

lemma probe_run_latched:
  assumes "probe_alarm self"
      and "latch_kept c (ps_previous_target_temp self) ts"
  shows "fst (probe_run c self ts) =
           map (\<lambda>t. Inr (if acc_get_temp (snd t) \<ge> fell_out_temp (ps_grill_units self)
                          then ''fell_out'' else ''at_temp'')) ts
         \<and> probe_alarm (snd (probe_run c self ts))"
  using assms
proof (induction ts arbitrary: self)
  case Nil
  then show ?case by simp
next
  case (Cons t ts)
  from Cons.prems have k: "acc_alarm_fired (snd t) \<noteq> None"
      "\<not> (Some (acc_set_temp (snd t)) \<noteq> ps_previous_target_temp self \<and> acc_set_temp (snd t) \<noteq> 0)"
      "gs_system_status (fst t) \<in> set (active_modes c)"
      "latch_kept c (Some (acc_set_temp (snd t))) ts"
    by simp_all
  note st = probe_tick_latched [OF Cons.prems(1) k(1,2,3)]
  have "latch_kept c (ps_previous_target_temp (snd (probe_tick c self t))) ts"
    using k(4) st(3) by simp
  from Cons.IH [OF st(2) this] st(1,4) show ?case
    by (simp add: Let_def)
qed

lemma probe_available_false_clears_latch:
  "\<not> fst (probe_available self) \<Longrightarrow> \<not> probe_alarm (snd (probe_available self))"
  by (auto simp: probe_available_def Let_def split: option.splits if_splits)

lemma heating_state_without_snapshot:
  "hs_grill_state self = None \<Longrightarrow> heating_state c self = (''idle'', self)"
  by (simp add: heating_state_def)

lemma length_py_store: "length (py_store xs i v) = length xs"
  by (simp add: py_store_def Let_def)

lemma py_index_inside:
  "0 < i \<Longrightarrow> i \<le> int (length xs) \<Longrightarrow> \<exists>x. py_index xs (i - 1) = Inr x"
  by (simp add: py_index_def Let_def)

lemma py_index_past_end: "py_index xs (int (length xs)) = Inl IndexError"
  by (simp add: py_index_def Let_def)

lemma native_value_guard:
  assumes "cc_grill_state self = None
           \<or> num_value self > int (length (cook_cycle self))
           \<or> (\<exists>gs. cc_grill_state self = Some gs \<and> num_value self > 0
                    \<and> gs_system_status gs \<in> set (stop_modes c))"
  shows "native_value c self = (Inr 0, self\<lparr>num_value := 0\<rparr>, [])"
  using assms by (auto simp: native_value_def split: option.splits)

lemma scan_for_advance_idle:
  "\<not> (num_value self > 0 \<and> num_value self = old_num_value self)
     \<Longrightarrow> scan_for_advance self gs = (None, self, [])"
  by (auto simp: scan_for_advance_def)

lemma scan_for_advance_step:
  assumes "num_value self > 0" "num_value self = old_num_value self"
      and "py_index (cook_cycle self) (num_value self - 1) = Inr curstep"
  shows "scan_for_advance self gs =
           (None,
            self\<lparr>num_value := (if advance_fires curstep gs then num_value self + 1 else num_value self),
                 cook_cycle := py_store (cook_cycle self) (num_value self - 1)
                                 (fst (in_step_change self gs curstep))\<rparr>,
            snd (in_step_change self gs curstep))"
  using assms by (simp add: scan_for_advance_def Let_def case_prod_beta)

lemma scan_for_advance_facts:
  assumes "num_value self \<le> int (length (cook_cycle self))"
      and "scan_for_advance self gs = (e, s1, cmds)"
  shows "e = None \<and> length (cook_cycle s1) = length (cook_cycle self)
       \<and> old_num_value s1 = old_num_value self
       \<and> (num_value s1 = num_value self \<or>
           (num_value self > 0 \<and> num_value self = old_num_value self
            \<and> num_value s1 = num_value self + 1))"
proof (cases "num_value self > 0 \<and> num_value self = old_num_value self")
  case False
  from scan_for_advance_idle [OF False, of gs] assms(2)
  show ?thesis by auto
next
  case True
  then obtain curstep where cs: "py_index (cook_cycle self) (num_value self - 1) = Inr curstep"
    using py_index_inside assms(1) by blast
  from True have p: "num_value self > 0" and q: "num_value self = old_num_value self"
    by simp_all
  from scan_for_advance_step [OF p q cs, of gs] assms(2) p q
  show ?thesis by (auto simp: length_py_store)
qed

lemma implement_next_step_facts:
  assumes "implement_next_step s1 gs = (e, s2, cmds)"
  shows "cook_cycle s2 = cook_cycle s1" "old_num_value s2 = old_num_value s1"
        "num_value s2 = num_value s1 \<or> num_value s2 = 0"
  using assms
  by (auto simp: implement_next_step_def split: if_splits sum.splits)

lemma queue_split:
  "snd (snd (native_value c self)) = queued_by_scan c self @ queued_by_entry c self"
  by (auto simp: native_value_def queued_by_scan_def queued_by_entry_def Let_def
           split: option.splits prod.splits)

lemma in_step_change_cmds:
  "cmd \<in> set (snd (in_step_change self gs curstep)) \<Longrightarrow>
     cmd = ServiceCall ''climate'' ''set_temperature'' (climate_id self) (Temperature (gs_set gs + 5))"
  by (auto simp: in_step_change_def Let_def split: option.splits if_splits)


lemma py_index_py_store_other:
  "0 \<le> i \<Longrightarrow> 0 \<le> j \<Longrightarrow> i \<noteq> j \<Longrightarrow> py_index (py_store xs i v) j = py_index xs j"
  by (auto simp: py_index_def py_store_def)

lemma py_index_Inr_bound: "0 \<le> i \<Longrightarrow> py_index xs i = Inr x \<Longrightarrow> i < int (length xs)"
  by (auto simp: py_index_def split: if_splits)

lemma step_entry_cmds_fields:
  fixes a b :: CookCycNumberEntity
  assumes g: "grill_id a = grill_id b" and f: "friendlyName a = friendlyName b"
      and e: "super_smoke_enabled a = super_smoke_enabled b"
  shows "step_entry_cmds a gs st = step_entry_cmds b gs st"
  unfolding step_entry_cmds_def timer_cmd_def probe_target_cmd_def grill_target_cmd_def
    smoke_cmd_def keepwarm_cmd_def shutdown_cmd_def climate_id_def g f e ..

lemma step_entry_cmds_clamp:
  "step_entry_cmds a gs (st\<lparr>max_grill_delta_temp := m\<rparr>) = step_entry_cmds a gs st"
  by (simp add: step_entry_cmds_def timer_cmd_def probe_target_cmd_def grill_target_cmd_def
        smoke_cmd_def keepwarm_cmd_def shutdown_cmd_def)

lemma in_step_change_queue:
  "snd (in_step_change self gs curstep) = []
   \<or> snd (in_step_change self gs curstep) =
       [ServiceCall ''climate'' ''set_temperature'' (climate_id self) (Temperature (gs_set gs + 5))]"
  by (auto simp: in_step_change_def Let_def split: option.splits)

lemma in_step_change_fields:
  fixes a b :: CookCycNumberEntity
  assumes g: "grill_id a = grill_id b" and m: "max_grill_temp a = max_grill_temp b"
  shows "in_step_change a gs st = in_step_change b gs st"
  unfolding in_step_change_def climate_id_def g m ..

lemma native_value_off_path:
  assumes "num_value self = old_num_value self" and "\<not> takes_advance_path c self"
  shows "snd (snd (native_value c self)) = []"
proof (cases "cc_grill_state self = None
           \<or> num_value self > int (length (cook_cycle self))
           \<or> (\<exists>gs. cc_grill_state self = Some gs \<and> num_value self > 0
                    \<and> gs_system_status gs \<in> set (stop_modes c))")
  case True
  from native_value_guard [OF True] show ?thesis by simp
next
  case False
  then obtain gs where gs: "cc_grill_state self = Some gs"
    and le: "\<not> num_value self > int (length (cook_cycle self))"
    and nm: "\<not> (num_value self > 0 \<and> gs_system_status gs \<in> set (stop_modes c))"
    by auto
  from assms gs le nm have z: "\<not> 0 < num_value self"
    by (auto simp: takes_advance_path_def)
  then show ?thesis
    using gs le by (simp add: native_value_def scan_for_advance_def implement_next_step_def)
qed

lemma native_value_no_advance:
  assumes "cc_grill_state self = Some gs"
      and "num_value self \<le> int (length (cook_cycle self))"
      and "gs_system_status gs \<notin> set (stop_modes c)"
      and "0 < num_value self" "num_value self = old_num_value self"
      and "py_index (cook_cycle self) (num_value self - 1) = Inr curstep"
      and "\<not> advance_fires curstep gs"
  shows "native_value c self =
           (Inr (num_value self),
            self\<lparr>cook_cycle := py_store (cook_cycle self) (num_value self - 1)
                                 (fst (in_step_change self gs curstep))\<rparr>,
            snd (in_step_change self gs curstep))"
  using assms(1,2,3,4,5,7)
  by (simp add: native_value_def scan_for_advance_step [OF assms(4,5,6)]
        implement_next_step_def length_py_store)

lemma native_value_advance:
  assumes "cc_grill_state self = Some gs"
      and "num_value self \<le> int (length (cook_cycle self))"
      and "gs_system_status gs \<notin> set (stop_modes c)"
      and "0 < num_value self" "num_value self = old_num_value self"
      and "py_index (cook_cycle self) (num_value self - 1) = Inr curstep"
      and "advance_fires curstep gs"
      and "py_index (cook_cycle self) (num_value self) = Inr nxt"
  shows "fst (native_value c self) = Inr (if shutdown nxt = Some 1 then 0 else num_value self + 1)"
    and "snd (snd (native_value c self)) =
           snd (in_step_change self gs curstep) @ step_entry_cmds self gs nxt"
proof -
  let ?s1 = "self\<lparr>num_value := num_value self + 1,
                 cook_cycle := py_store (cook_cycle self) (num_value self - 1)
                                 (fst (in_step_change self gs curstep))\<rparr>"
  have sc: "scan_for_advance self gs = (None, ?s1, snd (in_step_change self gs curstep))"
    using scan_for_advance_step [OF assms(4,5,6), of gs] assms(7) by simp
  have lt: "num_value self < int (length (cook_cycle self))"
    using py_index_Inr_bound [OF _ assms(8)] assms(4) by simp
  have nx: "py_index (cook_cycle ?s1) (num_value ?s1 - 1) = Inr nxt"
    using py_index_py_store_other [of "num_value self - 1" "num_value self" "cook_cycle self"]
          assms(4,8) by simp
  have im: "implement_next_step ?s1 gs =
              (None, (if shutdown nxt = Some 1 then ?s1\<lparr>num_value := 0\<rparr> else ?s1),
               step_entry_cmds ?s1 gs nxt)"
    using assms(4,5) nx by (simp add: implement_next_step_def)
  have se: "step_entry_cmds ?s1 gs nxt = step_entry_cmds self gs nxt"
    by (rule step_entry_cmds_fields) simp_all
  show "fst (native_value c self) = Inr (if shutdown nxt = Some 1 then 0 else num_value self + 1)"
    using assms(1,2,3,4) lt by (simp add: native_value_def sc im length_py_store Let_def)
  show "snd (snd (native_value c self)) =
           snd (in_step_change self gs curstep) @ step_entry_cmds self gs nxt"
    using assms(1,2,3,4) lt by (simp add: native_value_def sc im se length_py_store Let_def)
qed

lemma takes_advance_pathD:
  assumes "takes_advance_path c self" "cc_grill_state self = Some gs"
  shows "num_value self \<le> int (length (cook_cycle self))"
    and "gs_system_status gs \<notin> set (stop_modes c)"
    and "0 < num_value self" and "num_value self = old_num_value self"
  using assms by (auto simp: takes_advance_path_def)

lemma entered_step_queue:
  assumes "cc_grill_state self = Some gs" and "entered_step c self = Some n"
  shows "queued_by_entry c self =
           (case py_index (cook_cycle (fst (snd (scan_for_advance self gs)))) (n - 1) of
              Inl e \<Rightarrow> []
            | Inr st \<Rightarrow> step_entry_cmds (fst (snd (scan_for_advance self gs))) gs st)"
  using assms
  by (auto simp: entered_step_def queued_by_entry_def implement_next_step_def
           split: if_splits option.splits prod.splits sum.splits)

lemmas cc_eval = cc0_def timer_step_def target_step_def step0_def gs_done_def gs0_def c0_def
        native_value_def entered_step_def queued_by_entry_def queued_by_scan_def stop_modes_def
        scan_for_advance_def implement_next_step_def py_index_def py_store_def
        advance_fires_def in_step_change_def step_entry_cmds_def timer_cmd_def
        probe_target_cmd_def grill_target_cmd_def smoke_cmd_def keepwarm_cmd_def
        shutdown_cmd_def climate_id_def takes_advance_path_def Let_def

section \<open>The heating classifier\<close>

text \<open>
  Claim C3. In custom cook or manual cook, coming from \<open>at_temp\<close> with the target
  unchanged, the label is \<open>over_temp\<close> exactly when the grill is above target plus swing,
  \<open>under_temp\<close> exactly when it is below target minus swing, and \<open>at_temp\<close> otherwise;
  the swing is 11 in Celsius and 20 in Fahrenheit. The witness evaluates target 225 in
  Fahrenheit at 246, 204 and 225.
\<close>

theorem C3_at_temp_band:
  assumes "modes_distinct c"
      and "hs_grill_state self = Some gs"
      and "gs_system_status gs = GRILL_MODE_CUSTOM_COOK c
           \<or> gs_system_status gs = GRILL_MODE_MANUAL_COOK c"
      and "hs_previous_state self = ''at_temp''"
      and "hs_previous_target_temp self = Some (gs_set gs)"
      and "swing = (if hs_grill_units self = CELSIUS then 11 else 20)"
  shows "(fst (heating_state c self) = ''over_temp'') = (gs_grill gs > gs_set gs + swing)
       \<and> (fst (heating_state c self) = ''under_temp'') = (gs_grill gs < gs_set gs - swing)
       \<and> (fst (heating_state c self) = ''at_temp'') =
            (gs_set gs - swing \<le> gs_grill gs \<and> gs_grill gs \<le> gs_set gs + swing)
       \<and> fst (heating_state c self) \<in> {''over_temp'', ''under_temp'', ''at_temp''}"
proof -
  have m: "gs_system_status gs \<in> set (cook_modes c)"
    using assms(3) by (auto simp: cook_modes_def)
  have "fst (heating_state c self) =
          (if gs_grill gs > gs_set gs + swing then ''over_temp''
           else if gs_grill gs < gs_set gs - swing then ''under_temp'' else ''at_temp'')"
    using assms(4,5,6)
    by (simp add: heating_state_cook[OF assms(2,1) m] cook_label_def hysteresis_def temp_swing_def)
  moreover have "0 < swing" using assms(6) by simp
  ultimately show ?thesis by auto
qed

theorem C3_at_temp_band_witness:
  "modes_distinct c0
   \<and> hs_grill_state (hs0 ''at_temp'' (Some 225) 246) = Some (gs0 246)
   \<and> gs_system_status (gs0 246) = GRILL_MODE_CUSTOM_COOK c0
   \<and> hs_previous_target_temp (hs0 ''at_temp'' (Some 225) 246) = Some (gs_set (gs0 246))
   \<and> fst (heating_state c0 (hs0 ''at_temp'' (Some 225) 246)) = ''over_temp''
   \<and> fst (heating_state c0 (hs0 ''at_temp'' (Some 225) 204)) = ''under_temp''
   \<and> fst (heating_state c0 (hs0 ''at_temp'' (Some 225) 225)) = ''at_temp''"
proof -
  have t: "(fst (heating_state c0 (hs0 ''at_temp'' (Some 225) cur)) = ''over_temp'') = (cur > 225 + 20)
         \<and> (fst (heating_state c0 (hs0 ''at_temp'' (Some 225) cur)) = ''under_temp'') = (cur < 225 - 20)
         \<and> (fst (heating_state c0 (hs0 ''at_temp'' (Some 225) cur)) = ''at_temp'') =
              (225 - 20 \<le> cur \<and> cur \<le> 225 + 20)" for cur
    using C3_at_temp_band [OF modes_distinct_c0, of "hs0 ''at_temp'' (Some 225) cur" "gs0 cur" 20]
    by (simp add: hs0_def gs0_def c0_def)
  show ?thesis
    using t [of 246] t [of 204] t [of 225] modes_distinct_c0
    by (simp add: hs0_def gs0_def c0_def)
qed

text \<open>
  Claim C4. In custom cook or manual cook, when the target differs from the recorded
  one, or the previous label is none of heating, preheating, cooling, at_temp, under_temp
  and over_temp, the label is \<open>heating\<close> if the grill is at or below target and
  \<open>cooling\<close> otherwise, whatever the hysteresis chain computed.
\<close>

theorem C4_forced_label:
  assumes "modes_distinct c"
      and "hs_grill_state self = Some gs"
      and "gs_system_status gs = GRILL_MODE_CUSTOM_COOK c
           \<or> gs_system_status gs = GRILL_MODE_MANUAL_COOK c"
      and "hs_previous_target_temp self \<noteq> Some (gs_set gs)
           \<or> hs_previous_state self \<notin>
               {''heating'', ''preheating'', ''cooling'', ''at_temp'', ''under_temp'', ''over_temp''}"
  shows "fst (heating_state c self) = (if gs_grill gs \<le> gs_set gs then ''heating'' else ''cooling'')"
proof -
  have m: "gs_system_status gs \<in> set (cook_modes c)"
    using assms(3) by (auto simp: cook_modes_def)
  show ?thesis
    using assms(4) unfolding heating_state_cook[OF assms(2,1) m] cook_label_def hysteresis_def
    by (auto simp: Let_def)
qed

theorem C4_forced_label_witness:
  "modes_distinct c0
   \<and> hs_previous_target_temp (hs0 ''at_temp'' (Some 200) 230) \<noteq> Some (gs_set (gs0 230))
   \<and> fst (heating_state c0 (hs0 ''at_temp'' (Some 200) 230)) = ''cooling''
   \<and> hs_previous_state (hs0 ''idle'' (Some 225) 225) = ''idle''
   \<and> fst (heating_state c0 (hs0 ''idle'' (Some 225) 225)) = ''heating''"
  using C4_forced_label [OF modes_distinct_c0, of "hs0 ''at_temp'' (Some 200) 230" "gs0 230"]
        C4_forced_label [OF modes_distinct_c0, of "hs0 ''idle'' (Some 225) 225" "gs0 225"]
        modes_distinct_c0
  by (simp add: hs0_def gs0_def c0_def)

section \<open>The probe classifier\<close>

text \<open>
  Claim C5. Whenever the probe state is computed from an accessory whose temperature is
  at or above the fell-out threshold (102 in Celsius, 215 in Fahrenheit), the label is
  \<open>fell_out\<close>, whatever the latch, the target and the grill mode are.
\<close>

theorem C5_fell_out_priority:
  assumes "ps_grill_accessory self = Some acc"
      and "ps_grill_state self = Some gs"
      and "acc_get_temp acc \<ge> (if ps_grill_units self = CELSIUS then 102 else 215)"
  shows "fst (probe_state c self) = Inr ''fell_out''"
  using assms by (simp add: probe_state_def Let_def fell_out_temp_def)

theorem C5_fell_out_priority_witness:
  "ps_grill_accessory (ps0\<lparr>ps_grill_accessory := Some (acc0 165 220 (Some True)), probe_alarm := True\<rparr>)
     = Some (acc0 165 220 (Some True))
   \<and> acc_get_temp (acc0 165 220 (Some True)) \<ge> 215
   \<and> fst (probe_state c0 (ps0\<lparr>ps_grill_accessory := Some (acc0 165 220 (Some True)),
                               probe_alarm := True\<rparr>)) = Inr ''fell_out''"
  using C5_fell_out_priority
          [of "ps0\<lparr>ps_grill_accessory := Some (acc0 165 220 (Some True)), probe_alarm := True\<rparr>"
              "acc0 165 220 (Some True)" "gs0 225" c0]
  by (simp add: ps0_def acc0_def)

text \<open>
  Claim C6. An evaluation that sees \<open>alarm_fired\<close> true sets the latch. From then on,
  over any sequence of pushes in which the accessory keeps the \<open>alarm_fired\<close> key, no
  target changes to a nonzero value and the grill stays in the active modes, every
  evaluation returns \<open>at_temp\<close> (or \<open>fell_out\<close> at or above the threshold) and the
  latch stays set, whatever \<open>alarm_fired\<close> says on those pushes. A push with
  \<open>alarm_fired\<close> false on which the target changes to a nonzero value, or the mode is
  outside the active modes, clears the latch; an accessory without the key clears it.
\<close>

theorem C6_alarm_latch:
  assumes "acc_alarm_fired (snd t0) = Some True"
      and "latch_kept c (Some (acc_set_temp (snd t0))) ts"
  shows "probe_alarm (snd (probe_tick c self t0))
       \<and> fst (probe_tick c self t0) =
           Inr (if acc_get_temp (snd t0) \<ge> (if ps_grill_units self = CELSIUS then 102 else 215)
                then ''fell_out'' else ''at_temp'')
       \<and> fst (probe_run c (snd (probe_tick c self t0)) ts) =
           map (\<lambda>t. Inr (if acc_get_temp (snd t) \<ge> (if ps_grill_units self = CELSIUS then 102 else 215)
                          then ''fell_out'' else ''at_temp'')) ts
       \<and> probe_alarm (snd (probe_run c (snd (probe_tick c self t0)) ts))
       \<and> (acc_alarm_fired (snd t) = None \<longrightarrow> \<not> probe_alarm (snd (probe_tick c s t)))
       \<and> (acc_alarm_fired (snd t) = Some False
            \<and> ((Some (acc_set_temp (snd t)) \<noteq> ps_previous_target_temp s \<and> acc_set_temp (snd t) \<noteq> 0)
                \<or> gs_system_status (fst t) \<notin> set (active_modes c))
          \<longrightarrow> \<not> probe_alarm (snd (probe_tick c s t)))"
proof -
  note f = probe_tick_fired [OF assms(1), of c self]
  have k: "latch_kept c (ps_previous_target_temp (snd (probe_tick c self t0))) ts"
    using assms(2) f(3) by simp
  from probe_run_latched [OF f(2) k] f(1,2,4) probe_tick_release [of t s c]
  show ?thesis by (simp add: fell_out_temp_def)
qed

theorem C6_alarm_latch_witness:
  "acc_alarm_fired (snd (gs0 225, acc0 165 100 (Some True))) = Some True
   \<and> latch_kept c0 (Some 165)
        [(gs0 225, acc0 165 120 (Some False)), (gs0 225, acc0 0 130 (Some False))]
   \<and> fst (probe_tick c0 ps0 (gs0 225, acc0 165 100 (Some True))) = Inr ''at_temp''
   \<and> fst (probe_run c0 (snd (probe_tick c0 ps0 (gs0 225, acc0 165 100 (Some True))))
        [(gs0 225, acc0 165 120 (Some False)), (gs0 225, acc0 0 130 (Some False))])
       = [Inr ''at_temp'', Inr ''at_temp'']
   \<and> \<not> probe_alarm (snd (probe_tick c0 (ps0\<lparr>probe_alarm := True\<rparr>)
                            (gs0 225, acc0 180 120 (Some False))))
   \<and> \<not> probe_alarm (snd (probe_tick c0 (ps0\<lparr>probe_alarm := True\<rparr>)
                            (gs0 225, acc0 165 120 None)))"
proof -
  have k: "latch_kept c0 (Some (acc_set_temp (snd (gs0 225, acc0 165 100 (Some True)))))
        [(gs0 225, acc0 165 120 (Some False)), (gs0 225, acc0 0 130 (Some False))]"
    by (simp add: acc0_def gs0_def c0_def active_modes_def)
  have a: "acc_alarm_fired (snd (gs0 225, acc0 165 100 (Some True))) = Some True"
    by (simp add: acc0_def)
  show ?thesis
    using C6_alarm_latch [OF a k, of ps0 "(gs0 225, acc0 180 120 (Some False))" "ps0\<lparr>probe_alarm := True\<rparr>"]
          C6_alarm_latch [OF a k, of ps0 "(gs0 225, acc0 165 120 None)" "ps0\<lparr>probe_alarm := True\<rparr>"]
          k
    by (simp add: acc0_def ps0_def)
qed

section \<open>The timer entity\<close>

text \<open>
  Claim C8. Setting the timer raises the unsupported-in-current-state error exactly when
  the grill mode lies outside the range from igniting to custom cook. Inside the range no
  error is raised: a value of at least 1 sets the timer to the rounded value times 60
  seconds, a smaller value resets it. Without a snapshot the method returns at once.
\<close>

theorem C8_timer_set:
  "timer_async_set_native_value c None v = Inr []
   \<and> (timer_async_set_native_value c (Some gs) v = Inl NotImplementedError) =
       (\<not> (GRILL_MODE_IGNITING c \<le> gs_system_status gs
           \<and> gs_system_status gs \<le> GRILL_MODE_CUSTOM_COOK c))
   \<and> (GRILL_MODE_IGNITING c \<le> gs_system_status gs
        \<and> gs_system_status gs \<le> GRILL_MODE_CUSTOM_COOK c \<longrightarrow>
      timer_async_set_native_value c (Some gs) v =
        (if v \<ge> 1 then Inr [set_timer_sec (py_round v * 60)] else Inr [reset_timer]))"
  by (simp add: timer_async_set_native_value_def Let_def)

theorem C8_timer_set_witness:
  "GRILL_MODE_IGNITING c0 \<le> gs_system_status (gs0 200)
   \<and> gs_system_status (gs0 200) \<le> GRILL_MODE_CUSTOM_COOK c0
   \<and> timer_async_set_native_value c0 (Some (gs0 200)) (5 / 2) = Inr [set_timer_sec 120]
   \<and> timer_async_set_native_value c0 (Some (gs0 200)) (1 / 2) = Inr [reset_timer]
   \<and> timer_async_set_native_value c0 (Some ((gs0 200)\<lparr>gs_system_status := 3\<rparr>)) 10
       = Inl NotImplementedError"
proof -
  have r: "py_round (5 / 2) = 2"
    by code_simp
  show ?thesis
    using C8_timer_set [of c0 "5 / 2" "gs0 200"] C8_timer_set [of c0 "1 / 2" "gs0 200"]
          C8_timer_set [of c0 10 "(gs0 200)\<lparr>gs_system_status := 3\<rparr>"]
    by (simp add: gs0_def c0_def r)
qed

section \<open>Retained state across unavailability\<close>

text \<open>
  Claim C9. When \<open>available\<close> reports false the probe sensor clears its latch (the
  helper fact \<open>probe_available_false_clears_latch\<close>), but the heating sensor resets
  nothing: its \<open>available\<close> only reads the snapshot, and \<open>state\<close> returns early on a
  missing snapshot. Evaluated here: a heating sensor that reported \<open>at_temp\<close> at target
  225 loses its snapshot and gets it back at 240 degrees; it answers \<open>at_temp\<close>, where
  a sensor with fresh fields answers \<open>cooling\<close>.
\<close>

theorem C9_heating_memory_survives_unavailable:
  "\<not> base_available (hs_grill_state hs_off)
   \<and> heating_state c0 hs_off = (''idle'', hs_off)
   \<and> base_available (Some (gs0 240))
   \<and> fst (heating_state c0 (hs_off\<lparr>hs_grill_state := Some (gs0 240)\<rparr>)) = ''at_temp''
   \<and> fst (heating_state c0 (HeatingState_init\<lparr>hs_grill_state := Some (gs0 240)\<rparr>)) = ''cooling''"
  by (simp add: base_available_def hs_off_def heating_state_def gs0_def c0_def
        HeatingState_init_def preheat_modes_def cook_modes_def cook_label_def hysteresis_def
        temp_swing_def Let_def)

section \<open>The cook cycle\<close>

text \<open>
  Claim C1. The advance check firing on the final step (index equal to the length of the
  list, and equal to the previous index) does not end in the clamp: the index becomes
  the length plus one, differs from the previous index, and the step-entry block
  subscripts the list one past its end. The evaluation raises IndexError, leaving the
  index at the length plus one.
\<close>

theorem C1_advance_on_final_step_raises:
  assumes "cc_grill_state self = Some gs"
      and "num_value self = int (length (cook_cycle self))"
      and "0 < num_value self"
      and "old_num_value self = num_value self"
      and "gs_system_status gs \<notin> set (stop_modes c)"
      and "py_index (cook_cycle self) (num_value self - 1) = Inr curstep"
      and "advance_fires curstep gs"
  shows "fst (native_value c self) = Inl IndexError
       \<and> num_value (fst (snd (native_value c self))) = int (length (cook_cycle self)) + 1
       \<and> old_num_value (fst (snd (native_value c self))) = int (length (cook_cycle self))"
proof -
  have sc: "scan_for_advance self gs =
           (None,
            self\<lparr>num_value := num_value self + 1,
                 cook_cycle := py_store (cook_cycle self) (num_value self - 1)
                                 (fst (in_step_change self gs curstep))\<rparr>,
            snd (in_step_change self gs curstep))"
    using scan_for_advance_step [OF assms(3) assms(4)[symmetric] assms(6), of gs] assms(7) by simp
  have ix: "py_index (py_store (cook_cycle self) (num_value self - 1)
                        (fst (in_step_change self gs curstep))) (num_value self) = Inl IndexError"
    using py_index_past_end [of "py_store (cook_cycle self) (num_value self - 1)
                        (fst (in_step_change self gs curstep))"] assms(2)
    by (simp add: length_py_store)
  show ?thesis
    using assms(1,2,3,4,5) ix
    by (simp add: native_value_def sc implement_next_step_def)
qed

theorem C1_advance_on_final_step_raises_witness:
  "cc_grill_state (cc0 [timer_step] 1 1 (Some gs_done)) = Some gs_done
   \<and> num_value (cc0 [timer_step] 1 1 (Some gs_done))
       = int (length (cook_cycle (cc0 [timer_step] 1 1 (Some gs_done))))
   \<and> old_num_value (cc0 [timer_step] 1 1 (Some gs_done)) = 1
   \<and> gs_system_status gs_done \<notin> set (stop_modes c0)
   \<and> advance_fires timer_step gs_done
   \<and> fst (native_value c0 (cc0 [timer_step] 1 1 (Some gs_done))) = Inl IndexError"
proof -
  have a: "advance_fires timer_step gs_done"
    by (simp add: advance_fires_def timer_step_def step0_def gs_done_def gs0_def)
  have m: "gs_system_status gs_done \<notin> set (stop_modes c0)"
    by (simp add: gs_done_def gs0_def stop_modes_def c0_def)
  have p: "py_index (cook_cycle (cc0 [timer_step] 1 1 (Some gs_done)))
             (num_value (cc0 [timer_step] 1 1 (Some gs_done)) - 1) = Inr timer_step"
    by (simp add: cc0_def py_index_def)
  show ?thesis
    using C1_advance_on_final_step_raises [OF _ _ _ _ m p a] a m
    by (simp add: cc0_def)
qed

text \<open>
  Claim C2, as stated: every value \<open>native_value\<close> returns lies between 0 and the
  length of the list. It fails below 0: no guard tests for a negative index, and a stored
  index of -1 passes the guards, runs neither block and is returned as it is.
\<close>

theorem C2_negative_index_counterexample:
  "fst (native_value c0 (cc0 [timer_step, target_step] (- 1) 0 (Some (gs0 200)))) = Inr (- 1)
   \<and> (- 1 :: int) < 0"
  by (simp add: cc_eval)

text \<open>
  Claim C2, amended. An evaluation with no snapshot, or an index above the length of the
  list, or a positive index while the grill is in cool down, sleeping, shutdown or idle,
  sets the index to 0 and returns 0. Every value an evaluation returns is at most the
  length of the list, and it is at least 0 whenever the stored index is not below
  \<open>native_min_value\<close>, which is 0.
\<close>

theorem C2_guards_and_range:
  "((cc_grill_state self = None
      \<or> num_value self > int (length (cook_cycle self))
      \<or> (\<exists>gs. cc_grill_state self = Some gs \<and> num_value self > 0
               \<and> gs_system_status gs \<in> {GRILL_MODE_COOL_DOWN c, GRILL_MODE_SLEEPING c,
                                           GRILL_MODE_SHUTDOWN c, GRILL_MODE_IDLE c}))
     \<longrightarrow> fst (native_value c self) = Inr 0
         \<and> num_value (fst (snd (native_value c self))) = 0)
   \<and> (fst (native_value c self) = Inr v
     \<longrightarrow> v \<le> int (length (cook_cycle self))
         \<and> (native_min_value \<le> num_value self \<longrightarrow> 0 \<le> v))"
proof (intro conjI impI)
  assume g: "cc_grill_state self = None
      \<or> num_value self > int (length (cook_cycle self))
      \<or> (\<exists>gs. cc_grill_state self = Some gs \<and> num_value self > 0
               \<and> gs_system_status gs \<in> {GRILL_MODE_COOL_DOWN c, GRILL_MODE_SLEEPING c,
                                           GRILL_MODE_SHUTDOWN c, GRILL_MODE_IDLE c})"
  then have "native_value c self = (Inr 0, self\<lparr>num_value := 0\<rparr>, [])"
    by (intro native_value_guard) (auto simp: stop_modes_def)
  then show "fst (native_value c self) = Inr 0"
    and "num_value (fst (snd (native_value c self))) = 0"
    by simp_all
next
  assume h: "fst (native_value c self) = Inr v"
  have r: "v \<le> int (length (cook_cycle self)) \<and> (0 \<le> num_value self \<longrightarrow> 0 \<le> v)"
  proof (cases "cc_grill_state self = None
         \<or> num_value self > int (length (cook_cycle self))
         \<or> (\<exists>gs. cc_grill_state self = Some gs \<and> num_value self > 0
                  \<and> gs_system_status gs \<in> set (stop_modes c))")
    case True
    from native_value_guard [OF True] h show ?thesis by simp
  next
    case False
    then obtain gs where gs: "cc_grill_state self = Some gs"
      and le: "num_value self \<le> int (length (cook_cycle self))"
      and nm: "\<not> (num_value self > 0 \<and> gs_system_status gs \<in> set (stop_modes c))"
      by auto
    obtain e1 s1 cmds1 where sc: "scan_for_advance self gs = (e1, s1, cmds1)"
      by (cases "scan_for_advance self gs") auto
    from scan_for_advance_facts [OF le sc]
    have f1: "e1 = None" "length (cook_cycle s1) = length (cook_cycle self)"
      "num_value s1 = num_value self \<or> num_value s1 = num_value self + 1"
      by auto
    obtain e2 s2 cmds2 where im: "implement_next_step s1 gs = (e2, s2, cmds2)"
      by (cases "implement_next_step s1 gs") auto
    note f2 = implement_next_step_facts [OF im]
    have nv: "native_value c self =
            (case e2 of Some e \<Rightarrow> (Inl e, s2, cmds1 @ cmds2)
             | None \<Rightarrow>
                (let s3 = s2\<lparr>old_num_value := num_value s2\<rparr>;
                     s4 = (if num_value s3 > int (length (cook_cycle s3))
                           then s3\<lparr>num_value := 0\<rparr> else s3)
                 in (Inr (num_value s4), s4, cmds1 @ cmds2)))"
      using gs le nm f1(1) by (cases e2) (auto simp: native_value_def sc im)
    have "0 \<le> num_value self \<longrightarrow> 0 \<le> num_value s2" using f1(3) f2(3) by auto
    then show ?thesis
      using h nv f1(2) f2(1) by (auto simp: Let_def split: option.splits if_splits)
  qed
  from r show "v \<le> int (length (cook_cycle self))" by simp
  from r show "native_min_value \<le> num_value self \<Longrightarrow> 0 \<le> v"
    by (simp add: native_min_value_def)
qed

theorem C2_guards_and_range_witness:
  "num_value (cc0 [timer_step, target_step] 2 2 (Some ((gs0 200)\<lparr>gs_system_status := 8\<rparr>))) > 0
   \<and> gs_system_status ((gs0 200)\<lparr>gs_system_status := 8\<rparr>) = GRILL_MODE_COOL_DOWN c0
   \<and> fst (native_value c0 (cc0 [timer_step, target_step] 2 2
             (Some ((gs0 200)\<lparr>gs_system_status := 8\<rparr>)))) = Inr 0
   \<and> native_min_value \<le> num_value (cc0 [timer_step, target_step] 1 0 (Some (gs0 200)))
   \<and> fst (native_value c0 (cc0 [timer_step, target_step] 1 0 (Some (gs0 200)))) = Inr 1
   \<and> (0::int) \<le> 1
   \<and> (1::int) \<le> int (length (cook_cycle (cc0 [timer_step, target_step] 1 0 (Some (gs0 200)))))"
proof -
  have e: "fst (native_value c0 (cc0 [timer_step, target_step] 1 0 (Some (gs0 200)))) = Inr 1"
    by (simp add: cc_eval)
  show ?thesis
    using C2_guards_and_range [of "cc0 [timer_step, target_step] 2 2
             (Some ((gs0 200)\<lparr>gs_system_status := 8\<rparr>))" c0 0]
          C2_guards_and_range [of "cc0 [timer_step, target_step] 1 0 (Some (gs0 200))" c0 1] e
    by (simp add: cc0_def gs0_def c0_def native_min_value_def)
qed

text \<open>
  Claim C7, as stated: with the index equal to the previous index, no step-entry call is
  queued. It fails when the advance check fires: the index moves on and the step-entry
  block runs for the next step within the same evaluation.
\<close>

theorem C7_step_entry_counterexample:
  "num_value (cc0 [timer_step, target_step] 1 1 (Some gs_done))
     = old_num_value (cc0 [timer_step, target_step] 1 1 (Some gs_done))
   \<and> fst (native_value c0 (cc0 [timer_step, target_step] 1 1 (Some gs_done))) = Inr 2
   \<and> entered_step c0 (cc0 [timer_step, target_step] 1 1 (Some gs_done)) = Some 2
   \<and> queued_by_entry c0 (cc0 [timer_step, target_step] 1 1 (Some gs_done))
       = [ServiceCall ''climate'' ''set_temperature'' ''climate.grill_climate'' (Temperature 225)]
   \<and> snd (snd (native_value c0 (cc0 [timer_step, target_step] 1 1 (Some gs_done))))
       = [ServiceCall ''climate'' ''set_temperature'' ''climate.grill_climate'' (Temperature 225)]"
  by (simp add: cc0_def timer_step_def target_step_def step0_def gs_done_def gs0_def c0_def
        native_value_def entered_step_def queued_by_entry_def stop_modes_def
        scan_for_advance_def implement_next_step_def py_index_def py_store_def
        advance_fires_def in_step_change_def step_entry_cmds_def timer_cmd_def
        probe_target_cmd_def grill_target_cmd_def smoke_cmd_def keepwarm_cmd_def
        shutdown_cmd_def climate_id_def Let_def)

text \<open>
  Claim C7, amended. Take an evaluation in which the index equals the previous index. If
  it leaves by a guard, or the index is 0, it queues nothing. Otherwise it reads the
  current step and the in-step change queues at most the call raising the grill target
  by five. If the advance check does not fire, that is all the evaluation queues: no
  step-entry call, and the index is returned as it was. If the advance check fires and a
  next step exists, the evaluation queues after it exactly the step-entry calls of that
  next step, and returns its index (or 0 when that step shuts down). What happens when
  the advance check fires on the last step is not part of this statement.
\<close>

theorem C7_step_entry_only_after_advance:
  assumes "num_value self = old_num_value self"
  shows "(\<not> takes_advance_path c self \<longrightarrow> snd (snd (native_value c self)) = [])
       \<and> (takes_advance_path c self \<and> cc_grill_state self = Some gs
            \<and> py_index (cook_cycle self) (num_value self - 1) = Inr curstep \<longrightarrow>
            (snd (in_step_change self gs curstep) = []
              \<or> snd (in_step_change self gs curstep) =
                  [ServiceCall ''climate'' ''set_temperature'' (climate_id self)
                     (Temperature (gs_set gs + 5))])
          \<and> (\<not> advance_fires curstep gs \<longrightarrow>
                snd (snd (native_value c self)) = snd (in_step_change self gs curstep)
              \<and> fst (native_value c self) = Inr (num_value self))
          \<and> (advance_fires curstep gs \<and> py_index (cook_cycle self) (num_value self) = Inr nxt \<longrightarrow>
                snd (snd (native_value c self)) =
                  snd (in_step_change self gs curstep) @ step_entry_cmds self gs nxt
              \<and> fst (native_value c self) =
                  Inr (if shutdown nxt = Some 1 then 0 else num_value self + 1)))"
proof (intro conjI impI)
  assume "\<not> takes_advance_path c self"
  from native_value_off_path [OF assms this] show "snd (snd (native_value c self)) = []" .
next
  assume h: "takes_advance_path c self \<and> cc_grill_state self = Some gs
            \<and> py_index (cook_cycle self) (num_value self - 1) = Inr curstep"
  show "snd (in_step_change self gs curstep) = []
              \<or> snd (in_step_change self gs curstep) =
                  [ServiceCall ''climate'' ''set_temperature'' (climate_id self)
                     (Temperature (gs_set gs + 5))]"
    by (rule in_step_change_queue)
next
  assume h: "takes_advance_path c self \<and> cc_grill_state self = Some gs
            \<and> py_index (cook_cycle self) (num_value self - 1) = Inr curstep"
     and n: "\<not> advance_fires curstep gs"
  from h have t: "takes_advance_path c self" and g: "cc_grill_state self = Some gs"
    and cs: "py_index (cook_cycle self) (num_value self - 1) = Inr curstep" by simp_all
  note d = takes_advance_pathD [OF t g]
  from native_value_no_advance [OF g d cs n]
  show "snd (snd (native_value c self)) = snd (in_step_change self gs curstep)"
    and "fst (native_value c self) = Inr (num_value self)"
    by simp_all
next
  assume h: "takes_advance_path c self \<and> cc_grill_state self = Some gs
            \<and> py_index (cook_cycle self) (num_value self - 1) = Inr curstep"
     and a: "advance_fires curstep gs \<and> py_index (cook_cycle self) (num_value self) = Inr nxt"
  from h have t: "takes_advance_path c self" and g: "cc_grill_state self = Some gs"
    and cs: "py_index (cook_cycle self) (num_value self - 1) = Inr curstep" by simp_all
  from a have f: "advance_fires curstep gs"
    and nx: "py_index (cook_cycle self) (num_value self) = Inr nxt" by simp_all
  note d = takes_advance_pathD [OF t g]
  from native_value_advance [OF g d cs f nx]
  show "snd (snd (native_value c self)) =
                  snd (in_step_change self gs curstep) @ step_entry_cmds self gs nxt"
    and "fst (native_value c self) =
                  Inr (if shutdown nxt = Some 1 then 0 else num_value self + 1)"
    by simp_all
qed

theorem C7_step_entry_only_after_advance_witness:
  "num_value (cc0 [timer_step, target_step] 1 1 (Some (gs0 200)))
     = old_num_value (cc0 [timer_step, target_step] 1 1 (Some (gs0 200)))
   \<and> takes_advance_path c0 (cc0 [timer_step, target_step] 1 1 (Some (gs0 200)))
   \<and> \<not> advance_fires timer_step (gs0 200)
   \<and> snd (snd (native_value c0 (cc0 [timer_step, target_step] 1 1 (Some (gs0 200))))) = []
   \<and> fst (native_value c0 (cc0 [timer_step, target_step] 1 1 (Some (gs0 200)))) = Inr 1
   \<and> takes_advance_path c0 (cc0 [timer_step, target_step] 1 1 (Some gs_done))
   \<and> advance_fires timer_step gs_done
   \<and> py_index [timer_step, target_step] 1 = Inr target_step
   \<and> snd (snd (native_value c0 (cc0 [timer_step, target_step] 1 1 (Some gs_done))))
       = [ServiceCall ''climate'' ''set_temperature'' ''climate.grill_climate'' (Temperature 225)]
   \<and> fst (native_value c0 (cc0 [timer_step, target_step] 1 1 (Some gs_done))) = Inr 2
   \<and> \<not> takes_advance_path c0 (cc0 [timer_step, target_step] 0 0 (Some gs_done))
   \<and> snd (snd (native_value c0 (cc0 [timer_step, target_step] 0 0 (Some gs_done)))) = []"
proof -
  have p1: "takes_advance_path c0 (cc0 [timer_step, target_step] 1 1 (Some (gs0 200)))"
    and p2: "takes_advance_path c0 (cc0 [timer_step, target_step] 1 1 (Some gs_done))"
    and p0: "\<not> takes_advance_path c0 (cc0 [timer_step, target_step] 0 0 (Some gs_done))"
    by (simp_all add: takes_advance_path_def cc0_def gs0_def gs_done_def c0_def stop_modes_def)
  have a1: "\<not> advance_fires timer_step (gs0 200)" and a2: "advance_fires timer_step gs_done"
    by (simp_all add: advance_fires_def timer_step_def step0_def gs0_def gs_done_def)
  have i0: "py_index [timer_step, target_step] 0 = Inr timer_step"
    and i1: "py_index [timer_step, target_step] 1 = Inr target_step"
    by (simp_all add: py_index_def)
  have q: "snd (in_step_change self gs timer_step) = []" for self gs
    by (simp add: in_step_change_def timer_step_def step0_def)
  have e: "step_entry_cmds (cc0 [timer_step, target_step] 1 1 (Some gs_done)) gs_done target_step
             = [ServiceCall ''climate'' ''set_temperature'' ''climate.grill_climate'' (Temperature 225)]"
    by (simp add: step_entry_cmds_def timer_cmd_def probe_target_cmd_def grill_target_cmd_def
          smoke_cmd_def keepwarm_cmd_def shutdown_cmd_def climate_id_def target_step_def
          step0_def cc0_def)
  have sd: "shutdown target_step \<noteq> Some 1"
    by (simp add: target_step_def step0_def)
  show ?thesis
    using C7_step_entry_only_after_advance
            [of "cc0 [timer_step, target_step] 1 1 (Some (gs0 200))" c0 "gs0 200" timer_step target_step]
          C7_step_entry_only_after_advance
            [of "cc0 [timer_step, target_step] 1 1 (Some gs_done)" c0 gs_done timer_step target_step]
          C7_step_entry_only_after_advance
            [of "cc0 [timer_step, target_step] 0 0 (Some gs_done)" c0 gs_done timer_step target_step]
          p1 p2 p0 a1 a2 i0 i1 q e sd
    by (simp add: cc0_def)
qed




end
